theory Spec2Isabelle
  imports Main "HOL-Library.Sublist"
begin

section \<open>Python values, dictionaries and errors\<close>

text \<open>
  The program is one Python module: a module-level list of dictionaries,
  \<^verbatim>\<open>TLC_ENGINEERING\<close>, and two request handlers that read it,
  \<^verbatim>\<open>get_quotes\<close> (route \<^verbatim>\<open>/api/quotes\<close>) and \<^verbatim>\<open>devotional_home\<close> (route \<^verbatim>\<open>/\<close>).

  A dictionary value is an integer or a string; a dictionary is a finite map from
  string keys to values. Strings are byte lists: a Python string is modelled by its
  UTF-8 encoding, which concatenation and \<^verbatim>\<open>join\<close> (the only string operations of
  the module) respect.
\<close>

datatype pyval = PInt int | PStr string

type_synonym pydict = "string \<rightharpoonup> pyval"

datatype error = KeyError string

text \<open>The subscript \<^verbatim>\<open>d[k]\<close> raises \<^verbatim>\<open>KeyError(k)\<close> when the key is missing.\<close>

definition getitem :: "pydict \<Rightarrow> string \<Rightarrow> error + pyval" where
  "getitem d k = (case d k of None \<Rightarrow> Inl (KeyError k) | Some v \<Rightarrow> Inr v)"

text \<open>
  A replacement field \<^verbatim>\<open>{v}\<close> of an f-string without conversion or format
  specification inserts \<^verbatim>\<open>format(v, "")\<close>: a string as it is, an integer in
  decimal notation with a leading minus sign when negative.
\<close>

definition digit_char :: "nat \<Rightarrow> char" where
  "digit_char d = ''0123456789'' ! d"

function str_nat :: "nat \<Rightarrow> string" where
  "str_nat n = (if n < 10 then [digit_char n] else str_nat (n div 10) @ [digit_char (n mod 10)])"
  by pat_completeness auto
termination
  by (relation "measure id") auto

definition str_int :: "int \<Rightarrow> string" where
  "str_int i = (if i < 0 then CHR ''-'' # str_nat (nat (- i)) else str_nat (nat i))"

fun format_val :: "pyval \<Rightarrow> string" where
  "format_val (PStr s) = s"
| "format_val (PInt i) = str_int i"

text \<open>\<^verbatim>\<open>sep.join(xs)\<close> on a list of strings.\<close>

fun join :: "string \<Rightarrow> string list \<Rightarrow> string" where
  "join sep [] = []"
| "join sep [x] = x"
| "join sep (x # y # ys) = x @ sep @ join sep (y # ys)"

section \<open>The module state\<close>

text \<open>
  The only module-level variable the handlers read is \<^verbatim>\<open>TLC_ENGINEERING\<close>. A handler
  takes the module state and returns its result together with the state after the call.
\<close>

record module_state =
  TLC_ENGINEERING :: "pydict list"

text \<open>
  The text of the single entry of the catalog literal (source line 8). The source text
  has four en dashes (U+2013), each three bytes in UTF-8.
\<close>

definition en_dash :: string where
  "en_dash = [CHR 0xE2, CHR 0x80, CHR 0x93]"

definition prompt_text :: string where
  \<open>prompt_text = concat [
    ''As an AI assistant dedicated to TLC Engineering Solutions, your core function is to '',
    ''ensure the precision, compliance, and professional integrity of all legal, contractual, '',
    ''and formal business documents associated with engineering and architecture services. '',
    ''You support document integrity through detailed analysis, clause extraction, and '',
    ''expert-level summarization while offering authoritative guidance grounded in '',
    ''established industry practices when documents are not provided. Core Responsibilities: '',
    ''1. Document-Based Analysis (Primary Mode): When documents are provided, they serve as '',
    ''the exclusive source of truth. Your responsibilities include: A. Document '',
    ''Summarization: Generate clear, concise, and structured summaries of uploaded documents. '',
    ''Highlight core legal, regulatory, and professional service elements. Focus on '',
    ''information relevant to engineering and architecture, particularly in the context of '',
    ''contractual compliance, liability exposure, and regulatory standards. B. Key Clause '',
    ''Extraction: Identify and accurately extract essential provisions and clauses, '',
    ''especially those related to: Scope of Work, Liability and Indemnity, Insurance '',
    ''Requirements, Regulatory and Code Compliance, Payment Terms and Conditions. Emphasize '',
    ''clauses that materially affect: Contractual obligations and responsibilities, '',
    ''Professional and legal risk, Adherence to engineering codes, permitting standards, and '',
    ''industry-specific regulations. 2. Contextual and OpenAI-Enhanced Guidance (When No '',
    ''Document is Provided): When no document is uploaded, you may draw upon OpenAI's '',
    ''capabilities to provide legally-informed, industry-relevant guidance based on: '',
    ''Established practices in the engineering, construction, and architecture sectors, '',
    ''Widely accepted professional and regulatory standards, Best practices in contract '',
    ''management, liability mitigation, and project delivery. Key Deliverables in This Mode: '',
    ''Interpretive guidance on typical contractual structures and obligations, Clause '',
    ''drafting examples compliant with industry norms, Operational advice aligned with '',
    ''professional service firm responsibilities. Do not reference any unavailable documents '',
    ''or make assumptions about specific contract terms. All outputs must be generalized yet '',
    ''accurate, grounded in verifiable industry practice. Standards of Performance: All '',
    ''outputs must be: Legally Relevant '',
    en_dash,
    '' Reflect accurate legal principles applicable to engineering and architecture services '',
    ''Professionally Sound '',
    en_dash,
    '' Uphold industry norms, client obligations, and regulatory compliance Precise & '',
    ''Structured '',
    en_dash,
    '' Provide clearly organized content with no ambiguity Tone-Consistent '',
    en_dash,
    '' Maintain a formal, professional tone appropriate for contractual, legal, and '',
    ''business-critical communications. Supported Capabilities: In support of TLC Engineering '',
    ''Solutions operations, you may: Use OpenAI's tools to access up-to-date information '',
    ''relevant to engineering and architecture, Analyze uploaded documents as the definitive '',
    ''source when available, Provide authoritative clause extraction and commentary, Generate '',
    ''summaries or interpretations tailored to project managers, legal reviewers, or '',
    ''executive stakeholders.'']\<close>

text \<open>The state after the module has been loaded.\<close>

definition loaded_module :: module_state where
  "loaded_module = \<lparr>TLC_ENGINEERING = [[''id'' \<mapsto> PInt 1, ''text'' \<mapsto> PStr prompt_text]]\<rparr>"

section \<open>The data route\<close>

text \<open>\<^verbatim>\<open>def get_quotes(): return TLC_ENGINEERING\<close>\<close>

definition get_quotes :: "'a module_state_scheme \<Rightarrow> pydict list \<times> 'a module_state_scheme" where
  "get_quotes g = (TLC_ENGINEERING g, g)"

section \<open>The page route\<close>

text \<open>
  The f-string returned by \<^verbatim>\<open>devotional_home\<close> (source lines 29 to 152), cut into
  consecutive pieces, one string per source line. In the f-string a doubled brace
  stands for one brace; the only replacement field is \<^verbatim>\<open>{html_quotes}\<close>, between
  \<open>card_open\<close> and \<open>card_close\<close>. The pieces are
  the document opening with the style sheet up to the opening body tag,
  the header element (logo, title and tagline),
  the opening of the container and of the card with its heading and the opening list tag,
  the closing of the list, the card and the container,
  the footer element, and
  the closing of the document.
\<close>

definition document_head :: string where
  \<open>document_head = concat [
    ''\<newline>'',
    ''    <html>\<newline>'',
    ''        <head>\<newline>'',
    ''            <title>TLC Engineering Solutions - Document Analysis Platform</title>\<newline>'',
    ''            <link href="https://fonts.googleapis.com/css2?family=Poppins:wght@300;400;600;700&family=Roboto:wght@300;400;500;700&display=swap" rel="stylesheet">\<newline>'',
    ''            <style>\<newline>'',
    ''                * {\<newline>'',
    ''                    margin: 0;\<newline>'',
    ''                    padding: 0;\<newline>'',
    ''                    box-sizing: border-box;\<newline>'',
    ''                }\<newline>'',
    ''                body {\<newline>'',
    ''                    background: linear-gradient(135deg, #0f2027 0%, #203a43 50%, #2c5364 100%);\<newline>'',
    ''                    font-family: 'Roboto', sans-serif;\<newline>'',
    ''                    color: #333;\<newline>'',
    ''                    line-height: 1.6;\<newline>'',
    ''                    min-height: 100vh;\<newline>'',
    ''                }\<newline>'',
    ''                header {\<newline>'',
    ''                    background: linear-gradient(90deg, #1a3a52 0%, #2c5364 100%);\<newline>'',
    ''                    padding: 40px 20px;\<newline>'',
    ''                    text-align: center;\<newline>'',
    ''                    box-shadow: 0 8px 32px rgba(0, 0, 0, 0.3);\<newline>'',
    ''                    border-bottom: 3px solid #00d4ff;\<newline>'',
    ''                }\<newline>'',
    ''                .logo {\<newline>'',
    ''                    max-height: 80px;\<newline>'',
    ''                    width: auto;\<newline>'',
    ''                    margin-bottom: 20px;\<newline>'',
    ''                    filter: drop-shadow(0 2px 8px rgba(0, 212, 255, 0.3));\<newline>'',
    ''                }\<newline>'',
    ''                h1 {\<newline>'',
    ''                    font-family: 'Poppins', sans-serif;\<newline>'',
    ''                    font-size: 52px;\<newline>'',
    ''                    color: #ffffff;\<newline>'',
    ''                    font-weight: 700;\<newline>'',
    ''                    letter-spacing: 1.5px;\<newline>'',
    ''                    text-transform: uppercase;\<newline>'',
    ''                    margin-bottom: 10px;\<newline>'',
    ''                }\<newline>'',
    ''                .tagline {\<newline>'',
    ''                    font-size: 16px;\<newline>'',
    ''                    color: #00d4ff;\<newline>'',
    ''                    font-weight: 300;\<newline>'',
    ''                    letter-spacing: 2px;\<newline>'',
    ''                }\<newline>'',
    ''                .container {\<newline>'',
    ''                    max-width: 1000px;\<newline>'',
    ''                    margin: 50px auto;\<newline>'',
    ''                    padding: 0 20px;\<newline>'',
    ''                }\<newline>'',
    ''                .card {\<newline>'',
    ''                    background: #ffffff;\<newline>'',
    ''                    border-radius: 8px;\<newline>'',
    ''                    padding: 40px;\<newline>'',
    ''                    box-shadow: 0 12px 48px rgba(0, 0, 0, 0.2);\<newline>'',
    ''                    border-top: 4px solid #00d4ff;\<newline>'',
    ''                    transition: transform 0.3s ease, box-shadow 0.3s ease;\<newline>'',
    ''                }\<newline>'',
    ''                .card:hover {\<newline>'',
    ''                    transform: translateY(-5px);\<newline>'',
    ''                    box-shadow: 0 16px 56px rgba(0, 212, 255, 0.15);\<newline>'',
    ''                }\<newline>'',
    ''                h2 {\<newline>'',
    ''                    font-family: 'Poppins', sans-serif;\<newline>'',
    ''                    font-size: 32px;\<newline>'',
    ''                    color: #1a3a52;\<newline>'',
    ''                    margin-bottom: 30px;\<newline>'',
    ''                    font-weight: 600;\<newline>'',
    ''                    border-bottom: 2px solid #e0e0e0;\<newline>'',
    ''                    padding-bottom: 15px;\<newline>'',
    ''                    background: linear-gradient(135deg, #1a3a52 0%, #00d4ff 100%);\<newline>'',
    ''                    -webkit-background-clip: text;\<newline>'',
    ''                    -webkit-text-fill-color: transparent;\<newline>'',
    ''                    background-clip: text;\<newline>'',
    ''                    letter-spacing: 1px;\<newline>'',
    ''                }\<newline>'',
    ''                ul {\<newline>'',
    ''                    list-style: none;\<newline>'',
    ''                    padding: 0;\<newline>'',
    ''                }\<newline>'',
    ''                li {\<newline>'',
    ''                    margin: 20px 0;\<newline>'',
    ''                    padding: 15px 20px;\<newline>'',
    ''                    background: #f8f9fa;\<newline>'',
    ''                    border-left: 4px solid #00d4ff;\<newline>'',
    ''                    border-radius: 4px;\<newline>'',
    ''                    font-size: 15px;\<newline>'',
    ''                    line-height: 1.8;\<newline>'',
    ''                    color: #333;\<newline>'',
    ''                    transition: background 0.3s ease;\<newline>'',
    ''                }\<newline>'',
    ''                li:hover {\<newline>'',
    ''                    background: #e3f2fd;\<newline>'',
    ''                }\<newline>'',
    ''                footer {\<newline>'',
    ''                    text-align: center;\<newline>'',
    ''                    padding: 30px;\<newline>'',
    ''                    color: #888;\<newline>'',
    ''                    font-size: 12px;\<newline>'',
    ''                    margin-top: 50px;\<newline>'',
    ''                }\<newline>'',
    ''            </style>\<newline>'',
    ''        </head>\<newline>'',
    ''        <body>\<newline>'']\<close>

definition header_block :: string where
  \<open>header_block = concat [
    ''            <header>\<newline>'',
    ''                <img src="https://tlcaidocstorage.blob.core.windows.net/assets/TLC logo.jpg" alt="TLC Logo" class="logo">\<newline>'',
    ''                <h1>TLC Engineering</h1>\<newline>'',
    ''                <div class="tagline">Document Analysis & Compliance Platform</div>\<newline>'',
    ''            </header>\<newline>'']\<close>

definition card_open :: string where
  \<open>card_open = concat [
    ''            <div class="container">\<newline>'',
    ''                <div class="card">\<newline>'',
    ''                    <h2>About TLC Engineering</h2>\<newline>'',
    ''                    <ul>\<newline>'',
    ''                        '']\<close>

definition card_close :: string where
  \<open>card_close = concat [
    ''\<newline>'',
    ''                    </ul>\<newline>'',
    ''                </div>\<newline>'',
    ''            </div>\<newline>'']\<close>

definition footer_block :: string where
  \<open>footer_block = concat [
    ''            <footer>\<newline>'',
    ''                <p>&copy; 2025 TLC Engineering Solutions. All rights reserved. | Powered by Advanced Document Analysis AI</p>\<newline>'',
    ''            </footer>\<newline>'']\<close>

definition document_close :: string where
  \<open>document_close = concat [
    ''        </body>\<newline>'',
    ''    </html>\<newline>'',
    ''    '']\<close>

definition page_template :: "string \<Rightarrow> string" where
  "page_template html_quotes =
     document_head @ header_block @ card_open @ html_quotes @ card_close @ footer_block @ document_close"

text \<open>One element of the list comprehension: \<^verbatim>\<open>f"<li>{q['text']}</li>"\<close>.\<close>

definition list_item :: "pydict \<Rightarrow> error + string" where
  "list_item q =
     (case getitem q ''text'' of
        Inl e \<Rightarrow> Inl e
      | Inr v \<Rightarrow> Inr (''<li>'' @ format_val v @ ''</li>''))"

text \<open>
  The comprehension \<^verbatim>\<open>[f"<li>{q['text']}</li>" for q in TLC_ENGINEERING]\<close>: the
  elements are built in list order and the first exception ends the evaluation.
\<close>

fun list_items :: "pydict list \<Rightarrow> error + string list" where
  "list_items [] = Inr []"
| "list_items (q # qs) =
     (case list_item q of
        Inl e \<Rightarrow> Inl e
      | Inr s \<Rightarrow> (case list_items qs of Inl e \<Rightarrow> Inl e | Inr ss \<Rightarrow> Inr (s # ss)))"

definition devotional_home :: "'a module_state_scheme \<Rightarrow> (error + string) \<times> 'a module_state_scheme" where
  "devotional_home g =
     (case list_items (TLC_ENGINEERING g) of
        Inl e \<Rightarrow> (Inl e, g)
      | Inr items \<Rightarrow> (Inr (page_template (join '''' items)), g))"

section \<open>The data model of the specification\<close>

text \<open>
  A well-formed entry has an integer under the key \<open>id\<close> and a string under the key
  \<open>text\<close>; a well-formed catalog is a list of well-formed entries. The data model asks
  in addition for positive, pairwise distinct ids and for non-empty texts.
\<close>

definition wf_entry :: "pydict \<Rightarrow> bool" where
  "wf_entry q =
     ((case q ''id'' of Some (PInt i) \<Rightarrow> True | _ \<Rightarrow> False) \<and>
      (case q ''text'' of Some (PStr s) \<Rightarrow> True | _ \<Rightarrow> False))"

definition wf_catalog :: "pydict list \<Rightarrow> bool" where
  "wf_catalog c = list_all wf_entry c"

definition entry_text :: "pydict \<Rightarrow> string" where
  "entry_text q = (case q ''text'' of Some (PStr s) \<Rightarrow> s | _ \<Rightarrow> [])"

definition positive_id :: "pydict \<Rightarrow> bool" where
  "positive_id q = (case q ''id'' of Some (PInt i) \<Rightarrow> 0 < i | _ \<Rightarrow> False)"

definition nonempty_text :: "pydict \<Rightarrow> bool" where
  "nonempty_text q = (case q ''text'' of Some (PStr s) \<Rightarrow> s \<noteq> [] | _ \<Rightarrow> False)"

text \<open>
  \<open>pair_free a b s\<close>: in \<open>s\<close> no \<open>a\<close> is followed by \<open>b\<close>, and \<open>s\<close> does not end
  with \<open>a\<close>. The property is kept by concatenation, so it is checked line by line.
\<close>

fun pair_free :: "char \<Rightarrow> char \<Rightarrow> string \<Rightarrow> bool" where
  "pair_free a b [] = True"
| "pair_free a b [x] = (x \<noteq> a)"
| "pair_free a b (x # y # zs) = ((x \<noteq> a \<or> y \<noteq> b) \<and> pair_free a b (y # zs))"

section \<open>Auxiliary facts\<close>

lemma join_empty_sep: "sep = [] \<Longrightarrow> join sep xs = concat xs"
  by (induction sep xs rule: join.induct) simp_all

lemma list_item_wf:
  "wf_entry q \<Longrightarrow> list_item q = Inr (''<li>'' @ entry_text q @ ''</li>'')"
  by (auto simp: wf_entry_def list_item_def getitem_def entry_text_def
           split: option.splits pyval.splits)

lemma list_items_wf:
  "wf_catalog c \<Longrightarrow> list_items c = Inr (map (\<lambda>q. ''<li>'' @ entry_text q @ ''</li>'') c)"
  by (induction c) (simp_all add: wf_catalog_def list_item_wf)

lemma devotional_home_wf:
  assumes "wf_catalog (TLC_ENGINEERING g)"
  shows "devotional_home g =
           (Inr (page_template
                  (concat (map (\<lambda>q. ''<li>'' @ entry_text q @ ''</li>'') (TLC_ENGINEERING g)))), g)"
  using list_items_wf [OF assms] by (simp add: devotional_home_def join_empty_sep)

lemma devotional_home_state: "snd (devotional_home g) = g"
  by (simp add: devotional_home_def split: sum.splits)

lemma devotional_home_result:
  "fst (devotional_home g) =
     (case list_items (TLC_ENGINEERING g) of
        Inl e \<Rightarrow> Inl e
      | Inr items \<Rightarrow> Inr (page_template (join '''' items)))"
  by (simp add: devotional_home_def split: sum.splits)

text \<open>A handler that meets an entry without the key \<open>text\<close> raises \<open>KeyError\<close>.\<close>

lemma devotional_home_missing_text:
  "fst (devotional_home \<lparr>TLC_ENGINEERING = [[''id'' \<mapsto> PInt 1]]\<rparr>) = Inl (KeyError ''text'')"
  by (simp add: devotional_home_def list_item_def getitem_def)

lemma list_item_text_only: "q ''text'' = q' ''text'' \<Longrightarrow> list_item q = list_item q'"
  by (simp add: list_item_def getitem_def)

lemma list_items_text_only:
  "map (\<lambda>q. q ''text'') c = map (\<lambda>q. q ''text'') c' \<Longrightarrow> list_items c = list_items c'"
proof (induction c arbitrary: c')
  case Nil
  then show ?case by simp
next
  case (Cons q qs)
  then obtain q' qs' where c': "c' = q' # qs'"
    by (cases c') auto
  with Cons.prems have hd: "q ''text'' = q' ''text''"
    and tl: "map (\<lambda>q. q ''text'') qs = map (\<lambda>q. q ''text'') qs'"
    by simp_all
  have item: "list_item q = list_item q'"
    using hd by (rule list_item_text_only)
  have rest: "list_items qs = list_items qs'"
    using tl by (rule Cons.IH)
  show ?case
    unfolding c' list_items.simps item rest by (rule refl)
qed

subsection \<open>The shape of the template\<close>

lemma document_head_opens: "prefix ''\<newline>    <html>\<newline>'' document_head"
  unfolding document_head_def by simp

lemma document_close_closes: "suffix ''    </html>\<newline>    '' document_close"
  unfolding document_close_def by (simp add: suffix_to_prefix)

lemma header_block_shape:
  "prefix ''            <header>\<newline>'' header_block \<and>
   sublist ''<h1>TLC Engineering</h1>'' header_block \<and>
   suffix ''            </header>\<newline>'' header_block"
  unfolding header_block_def by (simp add: suffix_to_prefix sublist_Cons_right)

lemma card_open_shape:
  \<open>sublist ''<div class="card">'' card_open \<and>
   suffix ''<ul>\<newline>                        '' card_open\<close>
  unfolding card_open_def by (simp add: suffix_to_prefix sublist_Cons_right)

lemma card_close_shape:
  "prefix ''\<newline>                    </ul>\<newline>                </div>\<newline>'' card_close"
  unfolding card_close_def by simp

lemma footer_block_shape:
  "prefix ''            <footer>\<newline>'' footer_block \<and>
   suffix ''            </footer>\<newline>'' footer_block"
  unfolding footer_block_def by (simp add: suffix_to_prefix)

lemma sublist_page_template: "sublist h (page_template h)"
proof -
  have "page_template h =
          (document_head @ header_block @ card_open) @ h @
          (card_close @ footer_block @ document_close)"
    by (simp add: page_template_def)
  then show ?thesis
    by (simp only: sublist_appendI)
qed

lemma sublist_concat_map: "q \<in> set c \<Longrightarrow> sublist (f q) (concat (map f c))"
proof -
  assume "q \<in> set c"
  then obtain xs ys where "c = xs @ q # ys"
    by (auto dest: split_list)
  then have "concat (map f c) = concat (map f xs) @ f q @ concat (map f ys)"
    by simp
  then show ?thesis
    by (simp only: sublist_appendI)
qed

subsection \<open>No character reference for the less-than sign in the template\<close>

lemma pair_free_append:
  "pair_free a b xs \<Longrightarrow> pair_free a b ys \<Longrightarrow> pair_free a b (xs @ ys)"
proof (induction a b xs rule: pair_free.induct)
  case (1 a b)
  then show ?case by simp
next
  case (2 a b x)
  then show ?case by (cases ys) auto
next
  case (3 a b x y zs)
  then show ?case by simp
qed

lemma pair_free_concat: "list_all (pair_free a b) ls \<Longrightarrow> pair_free a b (concat ls)"
  by (induction ls) (simp_all add: pair_free_append)

lemma pair_free_not_sublist: "pair_free a b xs \<Longrightarrow> \<not> sublist [a, b] xs"
  by (induction a b xs rule: pair_free.induct) (auto simp: sublist_Cons_right)

lemma document_head_amp:
  "pair_free (CHR ''&'') (CHR ''l'') document_head \<and> pair_free (CHR ''&'') (CHR ''a'') document_head"
  unfolding document_head_def by (intro conjI pair_free_concat) simp_all

lemma header_block_amp:
  "pair_free (CHR ''&'') (CHR ''l'') header_block \<and> pair_free (CHR ''&'') (CHR ''a'') header_block"
  unfolding header_block_def by (intro conjI pair_free_concat) simp_all

lemma card_open_amp:
  "pair_free (CHR ''&'') (CHR ''l'') card_open \<and> pair_free (CHR ''&'') (CHR ''a'') card_open"
  unfolding card_open_def by (intro conjI pair_free_concat) simp_all

lemma card_close_amp:
  "pair_free (CHR ''&'') (CHR ''l'') card_close \<and> pair_free (CHR ''&'') (CHR ''a'') card_close"
  unfolding card_close_def by (intro conjI pair_free_concat) simp_all

lemma footer_block_amp:
  "pair_free (CHR ''&'') (CHR ''l'') footer_block \<and> pair_free (CHR ''&'') (CHR ''a'') footer_block"
  unfolding footer_block_def by (intro conjI pair_free_concat) simp_all

lemma document_close_amp:
  "pair_free (CHR ''&'') (CHR ''l'') document_close \<and> pair_free (CHR ''&'') (CHR ''a'') document_close"
  unfolding document_close_def by (intro conjI pair_free_concat) simp_all

lemma page_template_pair_free:
  assumes "pair_free a b document_head" and "pair_free a b header_block"
    and "pair_free a b card_open" and "pair_free a b card_close"
    and "pair_free a b footer_block" and "pair_free a b document_close"
    and "pair_free a b h"
  shows "\<not> sublist [a, b] (page_template h)"
proof -
  have "pair_free a b (page_template h)"
    unfolding page_template_def by (intro pair_free_append assms)
  then show ?thesis
    by (rule pair_free_not_sublist)
qed

lemma page_template_amp_l:
  assumes "pair_free (CHR ''&'') (CHR ''l'') h"
  shows "\<not> sublist ''&l'' (page_template h)"
  by (intro page_template_pair_free assms document_head_amp [THEN conjunct1]
        header_block_amp [THEN conjunct1] card_open_amp [THEN conjunct1]
        card_close_amp [THEN conjunct1] footer_block_amp [THEN conjunct1]
        document_close_amp [THEN conjunct1])

lemma page_template_amp_a:
  assumes "pair_free (CHR ''&'') (CHR ''a'') h"
  shows "\<not> sublist ''&a'' (page_template h)"
  by (intro page_template_pair_free assms document_head_amp [THEN conjunct2]
        header_block_amp [THEN conjunct2] card_open_amp [THEN conjunct2]
        card_close_amp [THEN conjunct2] footer_block_amp [THEN conjunct2]
        document_close_amp [THEN conjunct2])

lemma prompt_text_nonempty: "prompt_text \<noteq> []"
  unfolding prompt_text_def by simp

lemma prompt_text_ampersand: "CHR ''&'' \<in> set prompt_text"
  unfolding prompt_text_def by simp

lemma prompt_text_amp_a: "pair_free (CHR ''&'') (CHR ''a'') prompt_text"
  unfolding prompt_text_def by (rule pair_free_concat) (simp add: en_dash_def)

text \<open>
  The page of the loaded module: the text of the catalog literal holds an ampersand,
  and the page holds the text as it is and no \<open>&amp;\<close>.
\<close>

lemma loaded_module_page:
  "fst (devotional_home loaded_module) = Inr (page_template (''<li>'' @ prompt_text @ ''</li>'')) \<and>
   \<not> sublist ''&amp;'' (page_template (''<li>'' @ prompt_text @ ''</li>''))"
proof
  show "fst (devotional_home loaded_module) = Inr (page_template (''<li>'' @ prompt_text @ ''</li>''))"
    by (simp add: loaded_module_def devotional_home_def list_item_def getitem_def)
next
  have "pair_free (CHR ''&'') (CHR ''a'') ''<li>''" and "pair_free (CHR ''&'') (CHR ''a'') ''</li>''"
    by simp_all
  then have "pair_free (CHR ''&'') (CHR ''a'') (''<li>'' @ prompt_text @ ''</li>'')"
    using prompt_text_amp_a by (intro pair_free_append)
  then have none: "\<not> sublist ''&a'' (page_template (''<li>'' @ prompt_text @ ''</li>''))"
    by (rule page_template_amp_a)
  show "\<not> sublist ''&amp;'' (page_template (''<li>'' @ prompt_text @ ''</li>''))"
  proof
    assume "sublist ''&amp;'' (page_template (''<li>'' @ prompt_text @ ''</li>''))"
    moreover have "sublist ''&a'' ''&amp;''"
      by (simp add: sublist_Cons_right)
    ultimately have "sublist ''&a'' (page_template (''<li>'' @ prompt_text @ ''</li>''))"
      by (rule sublist_order.order.trans [rotated])
    with none show False
      by simp
  qed
qed

section \<open>The claims\<close>

text \<open>
  Claim C1. For every catalog, the data route handler returns a sequence as long as the
  catalog whose entries carry the catalog's ids and texts, pairwise and in the same
  order; nothing is omitted, added, filtered or reordered: the handler returns the
  catalog itself.
\<close>

theorem get_quotes_returns_catalog:
  "fst (get_quotes g) = TLC_ENGINEERING g \<and>
   length (fst (get_quotes g)) = length (TLC_ENGINEERING g) \<and>
   map (\<lambda>q. (q ''id'', q ''text'')) (fst (get_quotes g)) =
     map (\<lambda>q. (q ''id'', q ''text'')) (TLC_ENGINEERING g)"
  by (simp add: get_quotes_def)

text \<open>
  Claim C2 as stated (the page route embeds an entry's text in escaped form) fails. For
  the catalog with the single entry text \<open>Hello <b>world</b>\<close> the handler returns
  the template around \<open><li>Hello <b>world</b></li>\<close>: the page holds the tag
  \<open><b>\<close> and does not hold the escaped fragment \<open>Hello &lt;b&gt;world&lt;/b&gt;\<close>.
\<close>

theorem escaping_counterexample:
  "fst (devotional_home
         \<lparr>TLC_ENGINEERING = [[''id'' \<mapsto> PInt 1, ''text'' \<mapsto> PStr ''Hello <b>world</b>'']]\<rparr>) =
     Inr (page_template ''<li>Hello <b>world</b></li>'') \<and>
   sublist ''<b>'' (page_template ''<li>Hello <b>world</b></li>'') \<and>
   \<not> sublist ''Hello &lt;b&gt;world&lt;/b&gt;'' (page_template ''<li>Hello <b>world</b></li>'')"
proof (intro conjI)
  show "fst (devotional_home
              \<lparr>TLC_ENGINEERING = [[''id'' \<mapsto> PInt 1, ''text'' \<mapsto> PStr ''Hello <b>world</b>'']]\<rparr>) =
          Inr (page_template ''<li>Hello <b>world</b></li>'')"
    by (simp add: devotional_home_def list_item_def getitem_def)
next
  have "sublist ''<b>'' ''<li>Hello <b>world</b></li>''"
    by (simp add: sublist_Cons_right)
  then show "sublist ''<b>'' (page_template ''<li>Hello <b>world</b></li>'')"
    using sublist_page_template [of "''<li>Hello <b>world</b></li>''"]
    by (rule sublist_order.order.trans)
next
  show "\<not> sublist ''Hello &lt;b&gt;world&lt;/b&gt;'' (page_template ''<li>Hello <b>world</b></li>'')"
  proof
    assume inside: "sublist ''Hello &lt;b&gt;world&lt;/b&gt;'' (page_template ''<li>Hello <b>world</b></li>'')"
    have "sublist ''&l'' ''Hello &lt;b&gt;world&lt;/b&gt;''"
      by (simp add: sublist_Cons_right)
    then have "sublist ''&l'' (page_template ''<li>Hello <b>world</b></li>'')"
      using inside by (rule sublist_order.order.trans)
    moreover have "pair_free (CHR ''&'') (CHR ''l'') ''<li>Hello <b>world</b></li>''"
      by simp
    then have "\<not> sublist ''&l'' (page_template ''<li>Hello <b>world</b></li>'')"
      by (rule page_template_amp_l)
    ultimately show False
      by simp
  qed
qed

text \<open>
  Claim C2, amended. For every entry of a well-formed catalog, the page route handler
  embeds the entry's text as it is, without escaping, between \<open><li>\<close> and
  \<open></li>\<close>: the page holds the fragment made of \<open><li>\<close>, the text and
  \<open></li>\<close>.
\<close>

theorem page_embeds_text_unescaped:
  assumes "wf_catalog (TLC_ENGINEERING g)" and "q \<in> set (TLC_ENGINEERING g)"
  shows "\<exists>page. fst (devotional_home g) = Inr page \<and>
           sublist (''<li>'' @ entry_text q @ ''</li>'') page"
proof -
  let ?li = "\<lambda>q. ''<li>'' @ entry_text q @ ''</li>''"
  let ?items = "concat (map ?li (TLC_ENGINEERING g))"
  have page: "fst (devotional_home g) = Inr (page_template ?items)"
    using devotional_home_wf [OF assms(1)] by simp
  have "sublist (?li q) ?items"
    using assms(2) by (rule sublist_concat_map)
  then have "sublist (?li q) (page_template ?items)"
    using sublist_page_template [of ?items] by (rule sublist_order.order.trans)
  with page show ?thesis
    by blast
qed

text \<open>
  The amended claim at the entry text \<open>Hello <b>world</b>\<close>: the page holds the raw
  fragment \<open><li>Hello <b>world</b></li>\<close>.
\<close>

theorem page_embeds_text_unescaped_witness:
  "wf_catalog [[''id'' \<mapsto> PInt 1, ''text'' \<mapsto> PStr ''Hello <b>world</b>'']] \<and>
   [''id'' \<mapsto> PInt 1, ''text'' \<mapsto> PStr ''Hello <b>world</b>''] \<in>
     set [[''id'' \<mapsto> PInt 1, ''text'' \<mapsto> PStr ''Hello <b>world</b>'']] \<and>
   (\<exists>page.
      fst (devotional_home
            \<lparr>TLC_ENGINEERING = [[''id'' \<mapsto> PInt 1, ''text'' \<mapsto> PStr ''Hello <b>world</b>'']]\<rparr>) =
        Inr page \<and>
      sublist ''<li>Hello <b>world</b></li>'' page)"
proof -
  let ?q = "[''id'' \<mapsto> PInt 1, ''text'' \<mapsto> PStr ''Hello <b>world</b>'']"
  let ?g = "\<lparr>TLC_ENGINEERING = [?q]\<rparr>"
  have wf: "wf_catalog (TLC_ENGINEERING ?g)"
    by (simp add: wf_catalog_def wf_entry_def)
  have mem: "?q \<in> set (TLC_ENGINEERING ?g)"
    by simp
  have frag: "''<li>'' @ entry_text ?q @ ''</li>'' = ''<li>Hello <b>world</b></li>''"
    by (simp add: entry_text_def)
  have "\<exists>page. fst (devotional_home ?g) = Inr page \<and>
          sublist (''<li>'' @ entry_text ?q @ ''</li>'') page"
    using wf mem by (rule page_embeds_text_unescaped)
  then have "\<exists>page. fst (devotional_home ?g) = Inr page \<and>
          sublist ''<li>Hello <b>world</b></li>'' page"
    unfolding frag .
  with wf mem show ?thesis
    by simp
qed

text \<open>
  Claim C3. For every well-formed catalog, the page route handler returns one complete
  document: each entry's text is wrapped into a list item, the items are concatenated
  in catalog order, and the concatenation stands between the fixed pieces of the
  template, which do not depend on the catalog. The template opens and closes the
  \<open>html\<close> element and holds a header element with the title, one card that opens
  the list, and a footer element.
\<close>

theorem devotional_home_document:
  assumes "wf_catalog (TLC_ENGINEERING g)"
  shows \<open>fst (devotional_home g) =
           Inr (document_head @ header_block @ card_open @
                concat (map (\<lambda>q. ''<li>'' @ entry_text q @ ''</li>'') (TLC_ENGINEERING g)) @
                card_close @ footer_block @ document_close) \<and>
         prefix ''\<newline>    <html>\<newline>'' document_head \<and>
         suffix ''    </html>\<newline>    '' document_close \<and>
         prefix ''            <header>\<newline>'' header_block \<and>
         sublist ''<h1>TLC Engineering</h1>'' header_block \<and>
         suffix ''            </header>\<newline>'' header_block \<and>
         sublist ''<div class="card">'' card_open \<and>
         suffix ''<ul>\<newline>                        '' card_open \<and>
         prefix ''\<newline>                    </ul>\<newline>                </div>\<newline>'' card_close \<and>
         prefix ''            <footer>\<newline>'' footer_block \<and>
         suffix ''            </footer>\<newline>'' footer_block\<close>
proof -
  have "fst (devotional_home g) =
          Inr (document_head @ header_block @ card_open @
               concat (map (\<lambda>q. ''<li>'' @ entry_text q @ ''</li>'') (TLC_ENGINEERING g)) @
               card_close @ footer_block @ document_close)"
    using devotional_home_wf [OF assms] by (simp add: page_template_def)
  then show ?thesis
    using document_head_opens document_close_closes header_block_shape card_open_shape
      card_close_shape footer_block_shape
    by (intro conjI) (simp_all only: simp_thms)
qed

text \<open>Claim C3 at a catalog of two entries.\<close>

theorem devotional_home_document_witness:
  "wf_catalog [[''id'' \<mapsto> PInt 1, ''text'' \<mapsto> PStr ''ab''], [''id'' \<mapsto> PInt 2, ''text'' \<mapsto> PStr ''c'']] \<and>
   fst (devotional_home
         \<lparr>TLC_ENGINEERING =
            [[''id'' \<mapsto> PInt 1, ''text'' \<mapsto> PStr ''ab''], [''id'' \<mapsto> PInt 2, ''text'' \<mapsto> PStr ''c'']]\<rparr>) =
     Inr (document_head @ header_block @ card_open @ ''<li>ab</li><li>c</li>'' @
          card_close @ footer_block @ document_close)"
proof -
  let ?c = "[[''id'' \<mapsto> PInt 1, ''text'' \<mapsto> PStr ''ab''], [''id'' \<mapsto> PInt 2, ''text'' \<mapsto> PStr ''c'']]"
  let ?g = "\<lparr>TLC_ENGINEERING = ?c\<rparr>"
  have wf: "wf_catalog (TLC_ENGINEERING ?g)"
    by (simp add: wf_catalog_def wf_entry_def)
  have items: "concat (map (\<lambda>q. ''<li>'' @ entry_text q @ ''</li>'') (TLC_ENGINEERING ?g)) =
                 ''<li>ab</li><li>c</li>''"
    by (simp add: entry_text_def)
  have "fst (devotional_home ?g) =
          Inr (document_head @ header_block @ card_open @
               concat (map (\<lambda>q. ''<li>'' @ entry_text q @ ''</li>'') (TLC_ENGINEERING ?g)) @
               card_close @ footer_block @ document_close)"
    using devotional_home_document [OF wf] by (rule conjunct1)
  then have "fst (devotional_home ?g) =
          Inr (document_head @ header_block @ card_open @ ''<li>ab</li><li>c</li>'' @
               card_close @ footer_block @ document_close)"
    unfolding items .
  with wf show ?thesis
    by simp
qed

text \<open>
  Claim C4. For the empty catalog, the data route handler returns the empty sequence and
  the page route handler returns the complete fixed document, with nothing between the
  opening and the closing tag of the list inside the card; neither handler raises.
\<close>

theorem empty_catalog:
  "get_quotes \<lparr>TLC_ENGINEERING = []\<rparr> = ([], \<lparr>TLC_ENGINEERING = []\<rparr>) \<and>
   devotional_home \<lparr>TLC_ENGINEERING = []\<rparr> =
     (Inr (document_head @ header_block @ card_open @ card_close @ footer_block @ document_close),
      \<lparr>TLC_ENGINEERING = []\<rparr>) \<and>
   suffix ''<ul>\<newline>                        '' card_open \<and>
   prefix ''\<newline>                    </ul>\<newline>                </div>\<newline>'' card_close"
  using card_open_shape card_close_shape
  by (simp add: get_quotes_def devotional_home_def page_template_def)

text \<open>
  Claim C5. For every catalog whose ids are pairwise distinct, the ids returned by the
  data route handler are pairwise distinct and equal, element by element, the ids of
  the catalog.
\<close>

theorem ids_round_trip:
  assumes "distinct (map (\<lambda>q. q ''id'') (TLC_ENGINEERING g))"
  shows "distinct (map (\<lambda>q. q ''id'') (fst (get_quotes g))) \<and>
         map (\<lambda>q. q ''id'') (fst (get_quotes g)) = map (\<lambda>q. q ''id'') (TLC_ENGINEERING g)"
  using assms by (simp add: get_quotes_def)

text \<open>Claim C5 at a catalog of two entries with the ids 1 and 2.\<close>

theorem ids_round_trip_witness:
  "distinct (map (\<lambda>q. q ''id'')
     [[''id'' \<mapsto> PInt 1, ''text'' \<mapsto> PStr ''ab''], [''id'' \<mapsto> PInt 2, ''text'' \<mapsto> PStr ''c'']]) \<and>
   map (\<lambda>q. q ''id'')
     (fst (get_quotes
            \<lparr>TLC_ENGINEERING =
               [[''id'' \<mapsto> PInt 1, ''text'' \<mapsto> PStr ''ab''], [''id'' \<mapsto> PInt 2, ''text'' \<mapsto> PStr ''c'']]\<rparr>)) =
     [Some (PInt 1), Some (PInt 2)]"
proof -
  let ?c = "[[''id'' \<mapsto> PInt 1, ''text'' \<mapsto> PStr ''ab''], [''id'' \<mapsto> PInt 2, ''text'' \<mapsto> PStr ''c'']]"
  let ?g = "\<lparr>TLC_ENGINEERING = ?c\<rparr>"
  have ids: "map (\<lambda>q. q ''id'') (TLC_ENGINEERING ?g) = [Some (PInt 1), Some (PInt 2)]"
    by simp
  have dist: "distinct (map (\<lambda>q. q ''id'') (TLC_ENGINEERING ?g))"
    unfolding ids by simp
  have "map (\<lambda>q. q ''id'') (fst (get_quotes ?g)) = map (\<lambda>q. q ''id'') (TLC_ENGINEERING ?g)"
    using ids_round_trip [OF dist] by (rule conjunct2)
  with dist ids show ?thesis
    by simp
qed

text \<open>
  Claim C6. Both handlers are deterministic and idempotent: their outputs are functions
  of the catalog alone, so two module states with the same catalog give the same
  outputs, and a call that follows any other call returns what the first call of that
  handler returned.
\<close>

theorem handlers_deterministic:
  assumes "TLC_ENGINEERING g = TLC_ENGINEERING g'"
  shows "fst (get_quotes g) = fst (get_quotes g') \<and>
         fst (devotional_home g) = fst (devotional_home g') \<and>
         fst (get_quotes (snd (get_quotes g))) = fst (get_quotes g) \<and>
         fst (get_quotes (snd (devotional_home g))) = fst (get_quotes g) \<and>
         fst (devotional_home (snd (get_quotes g))) = fst (devotional_home g) \<and>
         fst (devotional_home (snd (devotional_home g))) = fst (devotional_home g)"
proof (intro conjI)
  show "fst (get_quotes g) = fst (get_quotes g')"
    using assms by (simp add: get_quotes_def)
  show "fst (devotional_home g) = fst (devotional_home g')"
    using assms by (simp add: devotional_home_result)
  show "fst (get_quotes (snd (get_quotes g))) = fst (get_quotes g)"
    by (simp add: get_quotes_def)
  show "fst (get_quotes (snd (devotional_home g))) = fst (get_quotes g)"
    by (simp add: devotional_home_state)
  show "fst (devotional_home (snd (get_quotes g))) = fst (devotional_home g)"
    by (simp add: get_quotes_def)
  show "fst (devotional_home (snd (devotional_home g))) = fst (devotional_home g)"
    by (simp add: devotional_home_state)
qed

text \<open>
  Claim C6 at two module states that hold the same catalog and differ in another
  component, and at two calls in a row.
\<close>

theorem handlers_deterministic_witness:
  "TLC_ENGINEERING \<lparr>TLC_ENGINEERING = [[''id'' \<mapsto> PInt 1, ''text'' \<mapsto> PStr ''ab'']]\<rparr> =
     TLC_ENGINEERING \<lparr>TLC_ENGINEERING = [[''id'' \<mapsto> PInt 1, ''text'' \<mapsto> PStr ''ab'']], \<dots> = True\<rparr> \<and>
   fst (devotional_home \<lparr>TLC_ENGINEERING = [[''id'' \<mapsto> PInt 1, ''text'' \<mapsto> PStr ''ab'']]\<rparr>) =
     fst (devotional_home \<lparr>TLC_ENGINEERING = [[''id'' \<mapsto> PInt 1, ''text'' \<mapsto> PStr ''ab'']], \<dots> = True\<rparr>) \<and>
   fst (devotional_home
         (snd (devotional_home \<lparr>TLC_ENGINEERING = [[''id'' \<mapsto> PInt 1, ''text'' \<mapsto> PStr ''ab'']]\<rparr>))) =
     Inr (page_template ''<li>ab</li>'')"
proof -
  let ?g = "\<lparr>TLC_ENGINEERING = [[''id'' \<mapsto> PInt 1, ''text'' \<mapsto> PStr ''ab'']]\<rparr>"
  let ?g' = "\<lparr>TLC_ENGINEERING = [[''id'' \<mapsto> PInt 1, ''text'' \<mapsto> PStr ''ab'']], \<dots> = True\<rparr>"
  have same: "TLC_ENGINEERING ?g = TLC_ENGINEERING ?g'"
    by simp
  have first: "fst (devotional_home ?g) = Inr (page_template ''<li>ab</li>'')"
    by (simp add: devotional_home_def list_item_def getitem_def)
  note det = handlers_deterministic [OF same]
  have "fst (devotional_home ?g) = fst (devotional_home ?g')"
    using det by (elim conjE)
  moreover have "fst (devotional_home (snd (devotional_home ?g))) = fst (devotional_home ?g)"
    using det by (elim conjE)
  ultimately show ?thesis
    using same first by simp
qed

text \<open>
  Claim C7. Neither handler changes the catalog: the module state after a call of the
  data route handler or of the page route handler is the state before the call, so the
  catalog keeps its length, its order and every entry.
\<close>

theorem handlers_preserve_catalog:
  "snd (get_quotes g) = g \<and> snd (devotional_home g) = g \<and>
   TLC_ENGINEERING (snd (get_quotes g)) = TLC_ENGINEERING g \<and>
   TLC_ENGINEERING (snd (devotional_home g)) = TLC_ENGINEERING g"
  by (simp add: get_quotes_def devotional_home_state)

text \<open>
  Claim C8. The catalog literal of the program satisfies the invariants of the data
  model: every id is a positive integer, the ids are pairwise distinct, and every text
  is a non-empty string.
\<close>

theorem catalog_literal_invariants:
  "list_all positive_id (TLC_ENGINEERING loaded_module) \<and>
   distinct (map (\<lambda>q. q ''id'') (TLC_ENGINEERING loaded_module)) \<and>
   list_all nonempty_text (TLC_ENGINEERING loaded_module)"
  by (simp add: loaded_module_def positive_id_def nonempty_text_def prompt_text_nonempty)

text \<open>
  Claim C9. For every well-formed catalog both handlers return a result and raise no
  exception: the data route handler returns the catalog (its body has no operation
  that can raise, so its model has no error result), and the page route handler returns
  a page, not an error.
\<close>

theorem handlers_total:
  assumes "wf_catalog (TLC_ENGINEERING g)"
  shows "get_quotes g = (TLC_ENGINEERING g, g) \<and> (\<exists>page. devotional_home g = (Inr page, g))"
  using devotional_home_wf [OF assms] by (simp add: get_quotes_def)

text \<open>Claim C9 at the catalog literal of the program.\<close>

theorem handlers_total_witness:
  "wf_catalog (TLC_ENGINEERING loaded_module) \<and>
   get_quotes loaded_module = (TLC_ENGINEERING loaded_module, loaded_module) \<and>
   (\<exists>page. devotional_home loaded_module = (Inr page, loaded_module))"
proof -
  have wf: "wf_catalog (TLC_ENGINEERING loaded_module)"
    by (simp add: loaded_module_def wf_catalog_def wf_entry_def)
  show ?thesis
    using wf handlers_total [OF wf] by (rule conjI)
qed

text \<open>
  Claim C10. The page depends on the texts of the entries only: two catalogs whose
  entries have the same values under the key \<open>text\<close>, in the same order, give the
  same result of the page route handler, whatever their ids are.
\<close>

theorem page_depends_on_texts_only:
  assumes "map (\<lambda>q. q ''text'') (TLC_ENGINEERING g) = map (\<lambda>q. q ''text'') (TLC_ENGINEERING g')"
  shows "fst (devotional_home g) = fst (devotional_home g')"
  using list_items_text_only [OF assms] by (simp add: devotional_home_result)

text \<open>Claim C10 at two catalogs with the same text and the ids 1 and 7.\<close>

theorem page_depends_on_texts_only_witness:
  "map (\<lambda>q. q ''text'') [[''id'' \<mapsto> PInt 1, ''text'' \<mapsto> PStr ''ab'']] =
     map (\<lambda>q. q ''text'') [[''id'' \<mapsto> PInt 7, ''text'' \<mapsto> PStr ''ab'']] \<and>
   map (\<lambda>q. q ''id'') [[''id'' \<mapsto> PInt 1, ''text'' \<mapsto> PStr ''ab'']] \<noteq>
     map (\<lambda>q. q ''id'') [[''id'' \<mapsto> PInt 7, ''text'' \<mapsto> PStr ''ab'']] \<and>
   fst (devotional_home \<lparr>TLC_ENGINEERING = [[''id'' \<mapsto> PInt 1, ''text'' \<mapsto> PStr ''ab'']]\<rparr>) =
     fst (devotional_home \<lparr>TLC_ENGINEERING = [[''id'' \<mapsto> PInt 7, ''text'' \<mapsto> PStr ''ab'']]\<rparr>)"
proof -
  let ?g = "\<lparr>TLC_ENGINEERING = [[''id'' \<mapsto> PInt 1, ''text'' \<mapsto> PStr ''ab'']]\<rparr>"
  let ?g' = "\<lparr>TLC_ENGINEERING = [[''id'' \<mapsto> PInt 7, ''text'' \<mapsto> PStr ''ab'']]\<rparr>"
  have texts: "map (\<lambda>q. q ''text'') (TLC_ENGINEERING ?g) = map (\<lambda>q. q ''text'') (TLC_ENGINEERING ?g')"
    by simp
  have ids: "map (\<lambda>q. q ''id'') (TLC_ENGINEERING ?g) \<noteq> map (\<lambda>q. q ''id'') (TLC_ENGINEERING ?g')"
    by simp
  have "fst (devotional_home ?g) = fst (devotional_home ?g')"
    using texts by (rule page_depends_on_texts_only)
  with texts ids show ?thesis
    by simp
qed

end
